theory Spec2Isabelle
  imports Main
begin

section \<open>JavaScript values and objects\<close>

text \<open>
  The arguments of the constructor are arbitrary JavaScript values. The model covers the
  JSON-like fragment: \<open>undefined\<close>, \<open>null\<close>, booleans, non-negative integer numbers
  (below \<open>10^21\<close>, where the decimal form is the number's string), strings, arrays and
  plain objects. An object is the list of its own enumerable properties in the order
  \<open>Object.keys\<close> reports them.
\<close>

datatype jsval =
    JUndefined
  | JNull
  | JBool bool
  | JNum nat
  | JStr string
  | JArray "jsval list"
  | JObject "(string \<times> jsval) list"

datatype js_error =
    ConfigurationError string
  | InvalidStateError
  | TypeError

text \<open>
  A call either returns, or throws after the effects it already had: both carry the
  state that is left behind.
\<close>

datatype 'a outcome = Returned 'a | Threw js_error 'a

text \<open>The classification of the npm module \<open>kind-of\<close> on these values.\<close>

fun kindOf :: "jsval \<Rightarrow> string" where
  "kindOf JUndefined = ''undefined''"
| "kindOf JNull = ''null''"
| "kindOf (JBool b) = ''boolean''"
| "kindOf (JNum n) = ''number''"
| "kindOf (JStr s) = ''string''"
| "kindOf (JArray vs) = ''array''"
| "kindOf (JObject ps) = ''object''"

text \<open>JavaScript's truthiness, as the test \<open>opts && ...\<close> uses it.\<close>

fun truthy :: "jsval \<Rightarrow> bool" where
  "truthy JUndefined = False"
| "truthy JNull = False"
| "truthy (JBool b) = b"
| "truthy (JNum n) = (n \<noteq> 0)"
| "truthy (JStr s) = (s \<noteq> [])"
| "truthy (JArray vs) = True"
| "truthy (JObject ps) = True"

definition digit_char :: "nat \<Rightarrow> char" where
  "digit_char d = char_of (48 + d)"

fun string_of_nat :: "nat \<Rightarrow> string" where
  "string_of_nat n =
     (if n < 10 then [digit_char n] else string_of_nat (n div 10) @ [digit_char (n mod 10)])"

fun join :: "string \<Rightarrow> string list \<Rightarrow> string" where
  "join sep [] = []"
| "join sep [x] = x"
| "join sep (x # y # r) = x @ sep @ join sep (y # r)"

text \<open>
  \<open>String(v)\<close>, which is also the property key a value is turned into. Inside an array,
  \<open>undefined\<close> and \<open>null\<close> elements are joined as empty strings.
\<close>

fun js_toString :: "jsval \<Rightarrow> string" where
  "js_toString JUndefined = ''undefined''"
| "js_toString JNull = ''null''"
| "js_toString (JBool b) = (if b then ''true'' else ''false'')"
| "js_toString (JNum n) = string_of_nat n"
| "js_toString (JStr s) = s"
| "js_toString (JArray vs) =
     join '','' (map (\<lambda>v. if v = JUndefined \<or> v = JNull then [] else js_toString v) vs)"
| "js_toString (JObject ps) = ''[object Object]''"

text \<open>
  The own property keys of an ordinary object are enumerated with the array indices
  first, in ascending numeric order, and the other strings after them in the order they
  were created. An array index is the canonical decimal string of an integer below
  \<open>2^32 - 1\<close>.
\<close>

definition is_digit :: "char \<Rightarrow> bool" where
  "is_digit c = ((48::nat) \<le> of_char c \<and> of_char c \<le> (57::nat))"

definition nat_of_digits :: "string \<Rightarrow> nat" where
  "nat_of_digits s = foldl (\<lambda>acc c. 10 * acc + (of_char c - (48::nat))) (0::nat) s"

definition array_index :: "string \<Rightarrow> nat option" where
  "array_index s =
     (if s \<noteq> [] \<and> list_all is_digit s \<and> (s = ''0'' \<or> hd s \<noteq> CHR ''0'')
         \<and> length s \<le> 10 \<and> nat_of_digits s < 4294967295
      then Some (nat_of_digits s) else None)"

fun insert_index :: "nat \<Rightarrow> string \<Rightarrow> 'a \<Rightarrow> (string \<times> 'a) list \<Rightarrow> (string \<times> 'a) list" where
  "insert_index n k v [] = [(k, v)]"
| "insert_index n k v ((k', v') # r) =
     (case array_index k' of
        Some n' \<Rightarrow> if n' < n then (k', v') # insert_index n k v r else (k, v) # (k', v') # r
      | None \<Rightarrow> (k, v) # (k', v') # r)"

fun replace_value :: "string \<Rightarrow> 'a \<Rightarrow> (string \<times> 'a) list \<Rightarrow> (string \<times> 'a) list" where
  "replace_value k v [] = []"
| "replace_value k v ((k', v') # r) =
     (if k' = k then (k, v) # r else (k', v') # replace_value k v r)"

text \<open>\<open>obj[k] = v\<close>: an existing property keeps its place, a new one is placed as above.\<close>

definition js_set :: "(string \<times> 'a) list \<Rightarrow> string \<Rightarrow> 'a \<Rightarrow> (string \<times> 'a) list" where
  "js_set obj k v =
     (if map_of obj k \<noteq> None then replace_value k v obj
      else case array_index k of
             Some n \<Rightarrow> insert_index n k v obj
           | None \<Rightarrow> obj @ [(k, v)])"

text \<open>
  \<open>Object.keys(v)\<close>: a TypeError on \<open>undefined\<close> and \<open>null\<close>, the indices of an array or
  a string, nothing for the other primitives.
\<close>

fun Object_keys :: "jsval \<Rightarrow> js_error + string list" where
  "Object_keys JUndefined = Inl TypeError"
| "Object_keys JNull = Inl TypeError"
| "Object_keys (JBool b) = Inr []"
| "Object_keys (JNum n) = Inr []"
| "Object_keys (JStr s) = Inr (map string_of_nat [0 ..< length s])"
| "Object_keys (JArray vs) = Inr (map string_of_nat [0 ..< length vs])"
| "Object_keys (JObject ps) = Inr (map fst ps)"


text \<open>\<open>obj[k]\<close> on the own properties of a plain object.\<close>

definition js_get :: "(string \<times> jsval) list \<Rightarrow> string \<Rightarrow> jsval" where
  "js_get ps k = (case map_of ps k of Some v \<Rightarrow> v | None \<Rightarrow> JUndefined)"

definition hasOwnProperty :: "(string \<times> 'a) list \<Rightarrow> string \<Rightarrow> bool" where
  "hasOwnProperty obj k = (map_of obj k \<noteq> None)"

section \<open>The instance and its surroundings\<close>

text \<open>
  Modelled from the spec: \<open>lib/states\<close> is not among the sources. The source reads its
  members \<open>incomplete\<close>, \<open>success\<close> and \<open>error\<close>, and \<open>complete\<close> looks a state value up
  among the table's keys, so each member holds its own name.
\<close>

definition states :: "(string \<times> string) list" where
  "states = [(''incomplete'', ''incomplete''), (''success'', ''success''), (''error'', ''error'')]"

definition states_incomplete :: string where
  "states_incomplete = ''incomplete''"

definition states_success :: string where
  "states_success = ''success''"

definition states_error :: string where
  "states_error = ''error''"

text \<open>
  One entry of \<open>this.spinners\<close>: its \<open>state\<close>, its \<open>current\<close> line (\<open>None\<close> before the
  first tick) and its \<open>text\<close>.
\<close>

record spinner =
  sp_state :: string
  sp_current :: "string option"
  sp_text :: string

text \<open>
  The two \<open>log-update\<close> instances: the module's own, bound to the terminal, and the one the
  constructor creates on a stream that drops every chunk.
\<close>

datatype sink = Terminal | Discarded

datatype output_op = Update sink string | Clear sink

text \<open>
  The properties the methods read. \<open>idx\<close> is \<open>this.i\<close>, with \<open>None\<close> for \<open>NaN\<close>; the
  time between two ticks is not modelled, \<open>interval\<close> is only carried along.
\<close>

record props =
  frames :: "string list"
  frameCount :: nat
  idx :: "nat option"
  interval :: nat
  indentStr :: string
  incompleteColor :: string
  successColor :: string
  errorColor :: string
  successSymbol :: string
  errorSymbol :: string
  clear :: bool
  debug :: bool

text \<open>
  The instance: the properties above, the registry \<open>this.spinners\<close> in \<open>Object.keys\<close>
  order, \<open>this.currentFrame\<close> (\<open>None\<close> for \<open>undefined\<close>), the timer handle \<open>this.state\<close>
  and the redraw function \<open>this.update\<close>.
\<close>

record multispinner = props +
  spinners :: "(string \<times> spinner) list"
  currentFrame :: "string option"
  state :: "nat option"
  update :: sink

text \<open>
  What lies around the instance: the interval timers that are armed (all of them run the
  tick of this instance), the next handle \<open>setInterval\<close> gives out, and the calls that
  reached a \<open>log-update\<close> instance so far.
\<close>

record world =
  inst :: multispinner
  timers :: "nat list"
  next_timer :: nat
  out_ops :: "output_op list"

text \<open>
  \<open>chalk[color]\<close>: the formatter of a colour name, or \<open>None\<close> where chalk has no such
  member. \<open>chalk\<close> and \<open>os.EOL\<close> are parameters of the model.
\<close>

type_synonym chalk = "string \<Rightarrow> (string \<Rightarrow> string) option"

section \<open>Construction\<close>

text \<open>
  Modelled from the spec: \<open>lib/errs\<close> is not among the sources. Its two members fail
  with a ConfigurationError, for an invalid spinners and an invalid options argument.
\<close>

definition errs_spinnersType :: js_error where
  "errs_spinnersType = ConfigurationError ''spinners''"

definition errs_optsType :: js_error where
  "errs_optsType = ConfigurationError ''opts''"

text \<open>
  Modelled from the spec: \<open>lib/validOpts\<close> is not among the sources. It is the
  allow-list and type check of the options, it answers no for an absent argument and it
  never fails. The constructor copies every option to the property of the same name, so
  the options are named as the properties the methods read.
\<close>

definition valid_opt :: "string \<Rightarrow> jsval \<Rightarrow> bool" where
  "valid_opt k v =
     (if k = ''frames'' then (case v of JArray vs \<Rightarrow> True | _ \<Rightarrow> False)
      else if k = ''interval'' then (case v of JNum n \<Rightarrow> True | _ \<Rightarrow> False)
      else if k \<in> set [''indentStr'', ''incompleteColor'', ''successColor'', ''errorColor'',
                        ''successSymbol'', ''errorSymbol'']
        then (case v of JStr s \<Rightarrow> True | _ \<Rightarrow> False)
      else if k = ''clear'' \<or> k = ''debug'' then (case v of JBool b \<Rightarrow> True | _ \<Rightarrow> False)
      else False)"

definition validOpts :: "jsval \<Rightarrow> bool" where
  "validOpts opts =
     (case opts of
        JObject ps \<Rightarrow> list_all (\<lambda>k. valid_opt k (js_get ps k)) (map fst ps)
      | _ \<Rightarrow> False)"

text \<open>
  \<open>this[prop] = opts[prop]\<close> on the typed record. An option that passed the check has a
  value of the property's type; any other assignment is not representable here and leaves
  the record as it is.
\<close>

definition assign :: "multispinner \<Rightarrow> string \<Rightarrow> jsval \<Rightarrow> multispinner" where
  "assign m k v =
     (case v of
        JArray vs \<Rightarrow> if k = ''frames'' then m\<lparr>frames := map js_toString vs\<rparr> else m
      | JNum n \<Rightarrow> if k = ''interval'' then m\<lparr>interval := n\<rparr> else m
      | JStr s \<Rightarrow>
          if k = ''indentStr'' then m\<lparr>indentStr := s\<rparr>
          else if k = ''incompleteColor'' then m\<lparr>incompleteColor := s\<rparr>
          else if k = ''successColor'' then m\<lparr>successColor := s\<rparr>
          else if k = ''errorColor'' then m\<lparr>errorColor := s\<rparr>
          else if k = ''successSymbol'' then m\<lparr>successSymbol := s\<rparr>
          else if k = ''errorSymbol'' then m\<lparr>errorSymbol := s\<rparr>
          else m
      | JBool b \<Rightarrow>
          if k = ''clear'' then m\<lparr>clear := b\<rparr>
          else if k = ''debug'' then m\<lparr>debug := b\<rparr>
          else m
      | _ \<Rightarrow> m)"

text \<open>
  Modelled from the spec: \<open>lib/createSpinner\<close> is not among the sources. Each descriptor
  becomes one entry of the registry, Incomplete and not yet rendered, under its name; an
  element of an array is its own label, a member of a mapping has its value for label.
\<close>

definition createSpinner :: "multispinner \<Rightarrow> jsval \<Rightarrow> jsval \<Rightarrow> multispinner" where
  "createSpinner m spinner txt =
     m\<lparr>spinners := js_set (spinners m) (js_toString spinner)
          \<lparr>sp_state = states_incomplete, sp_current = None,
           sp_text = (if txt = JUndefined then js_toString spinner else js_toString txt)\<rparr>\<rparr>"

text \<open>
  The properties cloned from \<open>lib/defaultProps\<close>, which is not among the sources: the
  table is a parameter. Modelled from the spec: the registry starts empty, no frame is
  current and no timer is held.
\<close>

definition clone_defaults :: "props \<Rightarrow> multispinner" where
  "clone_defaults d =
     \<lparr>frames = frames d, frameCount = frameCount d, idx = idx d, interval = interval d,
      indentStr = indentStr d, incompleteColor = incompleteColor d,
      successColor = successColor d, errorColor = errorColor d,
      successSymbol = successSymbol d, errorSymbol = errorSymbol d,
      clear = clear d, debug = debug d,
      spinners = [], currentFrame = None, state = None, update = Terminal\<rparr>"

fun elements :: "jsval \<Rightarrow> jsval list" where
  "elements (JArray vs) = vs"
| "elements v = []"

fun members :: "jsval \<Rightarrow> (string \<times> jsval) list" where
  "members (JObject ps) = ps"
| "members v = []"

definition constructor :: "props \<Rightarrow> jsval \<Rightarrow> jsval \<Rightarrow> js_error + multispinner" where
  "constructor defaultProps spinnersArg opts =
     (let spinnersType = kindOf spinnersArg in
      if spinnersType \<noteq> ''object'' \<and> spinnersType \<noteq> ''array'' then Inl errs_spinnersType
      else
        let optsType = kindOf opts in
        if truthy opts \<and> optsType \<noteq> ''object'' then Inl errs_optsType
        else
          let this0 = clone_defaults defaultProps in
          case (if validOpts opts
                then (case Object_keys opts of
                        Inl e \<Rightarrow> Inl e
                      | Inr ks \<Rightarrow> Inr (foldl (\<lambda>m k. assign m k (js_get (members opts) k)) this0 ks))
                else Inr this0) of
            Inl e \<Rightarrow> Inl e
          | Inr this1 \<Rightarrow>
              (case (if spinnersType = ''array''
                     then Inr (foldl (\<lambda>m v. createSpinner m v JUndefined) this1
                                 (elements spinnersArg))
                     else (case Object_keys spinnersArg of
                             Inl e \<Rightarrow> Inl e
                           | Inr ks \<Rightarrow>
                               Inr (foldl (\<lambda>m k. createSpinner m (JStr k)
                                                    (js_get (members spinnersArg) k)) this1 ks))) of
                 Inl e \<Rightarrow> Inl e
               | Inr this2 \<Rightarrow>
                   Inr (this2\<lparr>update := (if debug this2 then Discarded else Terminal)\<rparr>)))"

text \<open>A process that has just created the instance: no timer, nothing written.\<close>

definition fresh_world :: "multispinner \<Rightarrow> world" where
  "fresh_world m = \<lparr>inst = m, timers = [], next_timer = 0, out_ops = []\<rparr>"

section \<open>The methods\<close>

text \<open>\<open>clearInterval(this.state)\<close>; nothing happens for a handle that is not armed.\<close>

definition stop :: "world \<Rightarrow> world" where
  "stop w =
     (case state (inst w) of
        None \<Rightarrow> w
      | Some h \<Rightarrow> w\<lparr>timers := removeAll h (timers w)\<rparr>)"

definition allCompleted :: "multispinner \<Rightarrow> bool" where
  "allCompleted m = list_all (\<lambda>(k, sp). sp_state sp \<noteq> states_incomplete) (spinners m)"

text \<open>
  The \<open>switch\<close> of the tick: the colour and the symbol of a state, both \<open>undefined\<close> when
  no case matches.
\<close>

definition switch_state :: "multispinner \<Rightarrow> string \<Rightarrow> string option \<times> string option" where
  "switch_state m st =
     (if st = states_incomplete then (Some (incompleteColor m), currentFrame m)
      else if st = states_success then (Some (successColor m), Some (successSymbol m))
      else if st = states_error then (Some (errorColor m), Some (errorSymbol m))
      else (None, None))"

text \<open>A value inside a template literal: \<open>undefined\<close> is spelled out.\<close>

definition template :: "string option \<Rightarrow> string" where
  "template v = (case v of None \<Rightarrow> ''undefined'' | Some s \<Rightarrow> s)"

text \<open>
  The body of the first \<open>map\<close> of the tick for one entry. Calling \<open>chalk[color]\<close> is a
  TypeError where chalk has no such member, and so it is for the \<open>undefined\<close> colour.
\<close>

definition render :: "chalk \<Rightarrow> multispinner \<Rightarrow> spinner \<Rightarrow> js_error + spinner" where
  "render chalk m sp =
     (case switch_state m (sp_state sp) of
        (color, symbol) \<Rightarrow>
          (case (case color of None \<Rightarrow> None | Some c \<Rightarrow> chalk c) of
             None \<Rightarrow> Inl TypeError
           | Some paint \<Rightarrow>
               Inr (sp\<lparr>sp_current :=
                     Some (paint (indentStr m @ template symbol @ '' '' @ sp_text sp))\<rparr>)))"

fun render_all ::
  "chalk \<Rightarrow> multispinner \<Rightarrow> (string \<times> spinner) list \<Rightarrow> (string \<times> spinner) list outcome" where
  "render_all chalk m [] = Returned []"
| "render_all chalk m ((k, sp) # r) =
     (case render chalk m sp of
        Inl e \<Rightarrow> Threw e ((k, sp) # r)
      | Inr sp' \<Rightarrow>
          (case render_all chalk m r of
             Returned r' \<Rightarrow> Returned ((k, sp') # r')
           | Threw e r' \<Rightarrow> Threw e ((k, sp') # r')))"

text \<open>An element of the array that is joined: \<open>null\<close> counts as the empty string.\<close>

definition current_string :: "string \<times> spinner \<Rightarrow> string" where
  "current_string e = (case sp_current (snd e) of None \<Rightarrow> [] | Some s \<Rightarrow> s)"

text \<open>\<open>frames[i]\<close>, \<open>undefined\<close> out of range and at \<open>NaN\<close>.\<close>

definition frame_at :: "string list \<Rightarrow> nat option \<Rightarrow> string option" where
  "frame_at fs i =
     (case i of
        None \<Rightarrow> None
      | Some k \<Rightarrow> if k < length fs then Some (fs ! k) else None)"

text \<open>\<open>++this.i % this.frameCount\<close>, which is \<open>NaN\<close> for a count of zero.\<close>

definition next_idx :: "multispinner \<Rightarrow> nat option" where
  "next_idx m =
     (case idx m of
        None \<Rightarrow> None
      | Some k \<Rightarrow> if frameCount m = 0 then None else Some (Suc k mod frameCount m))"

text \<open>The function that \<open>loop\<close> hands to \<open>setInterval\<close>: one tick.\<close>

definition tick :: "chalk \<Rightarrow> string \<Rightarrow> world \<Rightarrow> world outcome" where
  "tick chalk EOL w =
     (let m = inst w;
          i = next_idx m;
          m1 = m\<lparr>idx := i, currentFrame := frame_at (frames m) i\<rparr>
      in case render_all chalk m1 (spinners m1) of
           Threw e sps \<Rightarrow> Threw e (w\<lparr>inst := m1\<lparr>spinners := sps\<rparr>\<rparr>)
         | Returned sps \<Rightarrow>
             (let m2 = m1\<lparr>spinners := sps\<rparr>;
                  w1 = w\<lparr>inst := m2,
                         out_ops := out_ops w @ [Update (update m2) (join EOL (map current_string sps))]\<rparr>
              in if allCompleted m2
                 then (let w2 = stop w1
                       in if clear m2 then Returned (w2\<lparr>out_ops := out_ops w2 @ [Clear Terminal]\<rparr>)
                          else Returned w2)
                 else Returned w1))"

text \<open>\<open>this.state = setInterval(...)\<close>: a new timer is armed and its handle kept.\<close>

definition loop :: "world \<Rightarrow> world" where
  "loop w =
     (let h = next_timer w
      in w\<lparr>inst := (inst w)\<lparr>state := Some h\<rparr>, timers := timers w @ [h], next_timer := Suc h\<rparr>)"

definition start :: "world \<Rightarrow> world" where
  "start w = loop w"

text \<open>\<open>this.spinners[spinner].state = state\<close> on an entry that exists.\<close>

definition set_state :: "string \<Rightarrow> string \<Rightarrow> world \<Rightarrow> world" where
  "set_state name st w =
     w\<lparr>inst := (inst w)\<lparr>spinners :=
          map (\<lambda>(k, sp). if k = name then (k, sp\<lparr>sp_state := st\<rparr>) else (k, sp))
            (spinners (inst w))\<rparr>\<rparr>"

text \<open>
  \<open>complete\<close>: the check of the state value, then stop, assign, start. State values
  are strings here. The assignment is a TypeError for a name the registry does not hold,
  when the timer is already stopped (the names every object inherits, such as
  \<open>toString\<close>, are left out of the model).
\<close>

definition complete :: "string \<Rightarrow> string \<Rightarrow> world \<Rightarrow> world outcome" where
  "complete name st w =
     (if \<not> hasOwnProperty states st then Threw InvalidStateError w
      else
        let w1 = stop w in
        if map_of (spinners (inst w1)) name = None then Threw TypeError w1
        else Returned (start (set_state name st w1)))"

definition success :: "string \<Rightarrow> world \<Rightarrow> world outcome" where
  "success name w = complete name states_success w"

definition error :: "string \<Rightarrow> world \<Rightarrow> world outcome" where
  "error name w = complete name states_error w"

section \<open>The timers at work\<close>

text \<open>The event loop runs the tick for a timer that is armed, and for no other.\<close>

definition fire :: "chalk \<Rightarrow> string \<Rightarrow> nat \<Rightarrow> world \<Rightarrow> world outcome" where
  "fire chalk EOL h w = (if h \<in> set (timers w) then tick chalk EOL w else Returned w)"

fun run :: "chalk \<Rightarrow> string \<Rightarrow> nat list \<Rightarrow> world \<Rightarrow> world outcome" where
  "run chalk EOL [] w = Returned w"
| "run chalk EOL (h # hs) w =
     (case fire chalk EOL h w of
        Returned w' \<Rightarrow> run chalk EOL hs w'
      | Threw e w' \<Rightarrow> Threw e w')"


section \<open>Observations and well-formedness\<close>

text \<open>What a call threw, if it threw, and the state it left behind either way.\<close>

definition thrown :: "'a outcome \<Rightarrow> js_error option" where
  "thrown r = (case r of Returned x \<Rightarrow> None | Threw e x \<Rightarrow> Some e)"

definition left_behind :: "'a outcome \<Rightarrow> 'a" where
  "left_behind r = (case r of Returned x \<Rightarrow> x | Threw e x \<Rightarrow> x)"

definition is_ConfigurationError :: "js_error + 'a \<Rightarrow> bool" where
  "is_ConfigurationError r =
     (case r of
        Inl e \<Rightarrow> (case e of ConfigurationError msg \<Rightarrow> True | _ \<Rightarrow> False)
      | Inr m \<Rightarrow> False)"

text \<open>The state, the text and the line of the entry of a name, if the registry holds one.\<close>

definition entry_state :: "string \<Rightarrow> world \<Rightarrow> string option" where
  "entry_state name w = map_option sp_state (map_of (spinners (inst w)) name)"

definition entry_text :: "string \<Rightarrow> world \<Rightarrow> string option" where
  "entry_text name w = map_option sp_text (map_of (spinners (inst w)) name)"

definition entry_current :: "string \<Rightarrow> world \<Rightarrow> string option option" where
  "entry_current name w = map_option sp_current (map_of (spinners (inst w)) name)"

text \<open>How often \<open>clear\<close> was called on a \<open>log-update\<close> instance.\<close>

definition clears :: "output_op list \<Rightarrow> nat" where
  "clears ops = length (filter (\<lambda>op. case op of Clear s \<Rightarrow> True | Update s b \<Rightarrow> False) ops)"

text \<open>
  Every entry is in a state of the table, no name occurs twice in the registry, and
  chalk knows the three colours.
\<close>

definition state_ok :: "spinner \<Rightarrow> bool" where
  "state_ok sp = hasOwnProperty states (sp_state sp)"

definition states_ok :: "multispinner \<Rightarrow> bool" where
  "states_ok m = list_all (\<lambda>e. state_ok (snd e)) (spinners m)"

definition registry_ok :: "multispinner \<Rightarrow> bool" where
  "registry_ok m = (distinct (map fst (spinners m)) \<and> states_ok m)"

definition colors_ok :: "chalk \<Rightarrow> multispinner \<Rightarrow> bool" where
  "colors_ok chalk m =
     (chalk (incompleteColor m) \<noteq> None \<and> chalk (successColor m) \<noteq> None
      \<and> chalk (errorColor m) \<noteq> None)"

text \<open>
  The loop is running on its own: the timer whose handle the instance holds is armed, and
  no other is.
\<close>

definition running :: "world \<Rightarrow> bool" where
  "running w = (case state (inst w) of None \<Rightarrow> False | Some h \<Rightarrow> timers w = [h])"

text \<open>
  The line of an entry as a tick computes it: the glyph and the colour of its state, and
  the text that \<open>chalk[color]\<close> paints (read only where chalk has that member).
\<close>

definition colored :: "chalk \<Rightarrow> string \<Rightarrow> string \<Rightarrow> string" where
  "colored chalk c s = (case chalk c of Some paint \<Rightarrow> paint s | None \<Rightarrow> s)"

definition glyph_of :: "multispinner \<Rightarrow> spinner \<Rightarrow> string" where
  "glyph_of m sp =
     (if sp_state sp = states_incomplete then template (currentFrame m)
      else if sp_state sp = states_success then successSymbol m
      else errorSymbol m)"

definition color_of :: "multispinner \<Rightarrow> spinner \<Rightarrow> string" where
  "color_of m sp =
     (if sp_state sp = states_incomplete then incompleteColor m
      else if sp_state sp = states_success then successColor m
      else errorColor m)"

definition line_of :: "chalk \<Rightarrow> multispinner \<Rightarrow> spinner \<Rightarrow> string" where
  "line_of chalk m sp =
     colored chalk (color_of m sp) (indentStr m @ glyph_of m sp @ '' '' @ sp_text sp)"

text \<open>The same line with the indentation left outside the paint.\<close>

definition indent_outside_line :: "chalk \<Rightarrow> multispinner \<Rightarrow> spinner \<Rightarrow> string" where
  "indent_outside_line chalk m sp =
     indentStr m @ colored chalk (color_of m sp) (glyph_of m sp @ '' '' @ sp_text sp)"

text \<open>
  The first steps of a tick, named: the cursor moved on, the lines recomputed, the block
  written; and the instance that shows the frame at a given position.
\<close>

definition advance :: "multispinner \<Rightarrow> multispinner" where
  "advance m = m\<lparr>idx := next_idx m, currentFrame := frame_at (frames m) (next_idx m)\<rparr>"

definition rendered ::
  "chalk \<Rightarrow> multispinner \<Rightarrow> (string \<times> spinner) list \<Rightarrow> (string \<times> spinner) list" where
  "rendered chalk m sps =
     map (\<lambda>e. (fst e, (snd e)\<lparr>sp_current := Some (line_of chalk m (snd e))\<rparr>)) sps"

definition ticked :: "chalk \<Rightarrow> string \<Rightarrow> world \<Rightarrow> world" where
  "ticked chalk EOL w =
     w\<lparr>inst := (advance (inst w))
                \<lparr>spinners := rendered chalk (advance (inst w)) (spinners (inst w))\<rparr>,
       out_ops := out_ops w @
         [Update (update (inst w))
            (join EOL (map (\<lambda>e. line_of chalk (advance (inst w)) (snd e)) (spinners (inst w))))]\<rparr>"

definition displayed :: "chalk \<Rightarrow> multispinner \<Rightarrow> nat \<Rightarrow> multispinner" where
  "displayed chalk m j =
     m\<lparr>idx := Some j, currentFrame := frame_at (frames m) (Some j),
       spinners := rendered chalk (m\<lparr>currentFrame := frame_at (frames m) (Some j)\<rparr>) (spinners m)\<rparr>"

section \<open>A concrete configuration\<close>

text \<open>
  A table of defaults with four frames, a colorizer that wraps a text in the escape
  sequences of three colours, and the instances and processes the examples run on: two
  tasks under way, the same two tasks both completed, the two tasks completed after
  \<open>start\<close> was called twice, one task with \<open>clear\<close> set (and the same task completed
  after \<open>start\<close> was called twice), one task with two frames of its own, and one task
  with \<open>debug\<close> and \<open>clear\<close> set.
\<close>

definition example_defaults :: props where
  "example_defaults =
     \<lparr>frames = [''-'', [CHR 0x5C], ''|'', ''/''], frameCount = 4, idx = Some 0, interval = 80,
      indentStr = ''  '', incompleteColor = ''blue'', successColor = ''green'',
      errorColor = ''red'', successSymbol = ''+'', errorSymbol = ''x'',
      clear = False, debug = False\<rparr>"

definition ansi :: chalk where
  "ansi c =
     (if c = ''blue'' then Some (\<lambda>s. CHR 0x1B # ''[34m'' @ s @ CHR 0x1B # ''[39m'')
      else if c = ''green'' then Some (\<lambda>s. CHR 0x1B # ''[32m'' @ s @ CHR 0x1B # ''[39m'')
      else if c = ''red'' then Some (\<lambda>s. CHR 0x1B # ''[31m'' @ s @ CHR 0x1B # ''[39m'')
      else None)"

definition newline :: string where
  "newline = [CHR 0x0A]"

definition example_instance :: multispinner where
  "example_instance =
     (clone_defaults example_defaults)
       \<lparr>spinners :=
          [(''a'', \<lparr>sp_state = ''incomplete'', sp_current = None, sp_text = ''Task A''\<rparr>),
           (''b'', \<lparr>sp_state = ''incomplete'', sp_current = None, sp_text = ''Task B''\<rparr>)]\<rparr>"

definition example_world :: world where
  "example_world = start (fresh_world example_instance)"

definition example_done :: world where
  "example_done = left_behind (error ''b'' (left_behind (success ''a'' example_world)))"

definition example_leaked :: world where
  "example_leaked =
     left_behind (error ''b'' (left_behind (success ''a''
       (start (start (fresh_world example_instance))))))"

definition example_clear_instance :: multispinner where
  "example_clear_instance =
     (clone_defaults example_defaults)
       \<lparr>clear := True,
        spinners := [(''a'', \<lparr>sp_state = ''incomplete'', sp_current = None, sp_text = ''a''\<rparr>)]\<rparr>"

definition example_clear_leaked :: world where
  "example_clear_leaked =
     left_behind (success ''a'' (start (start (fresh_world example_clear_instance))))"

definition example_frames_instance :: multispinner where
  "example_frames_instance =
     (clone_defaults example_defaults)
       \<lparr>frames := [''p'', ''q''],
        spinners := [(''a'', \<lparr>sp_state = ''incomplete'', sp_current = None, sp_text = ''a''\<rparr>)]\<rparr>"

definition example_debug_instance :: multispinner where
  "example_debug_instance =
     (clone_defaults example_defaults)
       \<lparr>clear := True, debug := True,
        spinners := [(''a'', \<lparr>sp_state = ''incomplete'', sp_current = None, sp_text = ''a''\<rparr>)],
        update := Discarded\<rparr>"

section \<open>Facts about the model\<close>

subsection \<open>The registry the constructor builds\<close>

lemma array_index_letters: "array_index ''a'' = None" "array_index ''b'' = None"
  by (simp_all add: array_index_def is_digit_def)

lemma array_index_one: "array_index ''1'' = Some 1"
  by (simp add: array_index_def is_digit_def nat_of_digits_def)

lemma constructor_example:
  "constructor example_defaults (JObject [(''a'', JStr ''Task A''), (''b'', JStr ''Task B'')])
     JUndefined = Inr example_instance"
  by (simp add: constructor_def Let_def validOpts_def createSpinner_def js_set_def js_get_def
      array_index_letters example_instance_def clone_defaults_def states_incomplete_def
      example_defaults_def)

lemma keys_replace_value [simp]: "map fst (replace_value k v obj) = map fst obj"
  by (induction obj) auto

lemma set_insert_index: "set (insert_index n k v obj) = insert (k, v) (set obj)"
  by (induction obj) (auto split: option.splits if_splits)

lemma keys_insert_index:
  "set (map fst (insert_index n k v obj)) = insert k (set (map fst obj))"
  by (simp add: set_insert_index)

lemma distinct_insert_index:
  "distinct (map fst obj) \<Longrightarrow> k \<notin> set (map fst obj)
     \<Longrightarrow> distinct (map fst (insert_index n k v obj))"
proof (induction obj)
  case Nil
  then show ?case by simp
next
  case (Cons e obj)
  have "fst e \<notin> set (map fst (insert_index n k v obj))"
    using Cons.prems unfolding keys_insert_index by auto
  then show ?case
    using Cons by (cases e) (auto split: option.splits)
qed

lemma distinct_js_set:
  "distinct (map fst obj) \<Longrightarrow> distinct (map fst (js_set obj k v))"
  by (auto simp: js_set_def distinct_insert_index map_of_eq_None_iff split: option.splits)

lemma list_all_replace_value:
  "list_all P obj \<Longrightarrow> P (k, v) \<Longrightarrow> list_all P (replace_value k v obj)"
  by (induction obj) auto

lemma list_all_insert_index:
  "list_all P obj \<Longrightarrow> P (k, v) \<Longrightarrow> list_all P (insert_index n k v obj)"
  by (induction obj) (auto split: option.splits)

lemma list_all_js_set:
  "list_all P obj \<Longrightarrow> P (k, v) \<Longrightarrow> list_all P (js_set obj k v)"
  by (auto simp: js_set_def list_all_replace_value list_all_insert_index split: option.splits)

lemma registry_ok_createSpinner:
  "registry_ok m \<Longrightarrow> registry_ok (createSpinner m a b)"
  by (simp add: registry_ok_def createSpinner_def distinct_js_set states_ok_def list_all_js_set
      state_ok_def hasOwnProperty_def states_def states_incomplete_def)

lemma registry_ok_foldl:
  "registry_ok m \<Longrightarrow> registry_ok (foldl (\<lambda>m x. createSpinner m (f x) (g x)) m xs)"
  by (induction xs arbitrary: m) (simp_all add: registry_ok_createSpinner)

lemma spinners_assign [simp]: "spinners (assign m k v) = spinners m"
  by (simp add: assign_def split: jsval.splits)

lemma spinners_foldl_assign [simp]:
  "spinners (foldl (\<lambda>m k. assign m k (f k)) m ks) = spinners m"
  by (induction ks arbitrary: m) simp_all

lemma registry_ok_assigned:
  "registry_ok (foldl (\<lambda>m k. assign m k (f k)) m ks) = registry_ok m"
  by (simp add: registry_ok_def states_ok_def)

text \<open>Every instance the constructor returns has distinct names, all Incomplete or terminal.\<close>

lemma constructor_registry_ok:
  assumes "constructor d sp opts = Inr m"
  shows "registry_ok m"
proof -
  have 0: "registry_ok (clone_defaults d)"
    by (simp add: registry_ok_def states_ok_def clone_defaults_def)
  have u: "registry_ok (x\<lparr>update := y\<rparr>) = registry_ok x" for x y
    by (simp add: registry_ok_def states_ok_def)
  show ?thesis
    using assms 0 registry_ok_foldl [of _ "\<lambda>v. v" "\<lambda>v. JUndefined"]
      registry_ok_foldl [of _ JStr "js_get (members sp)"]
    by (auto simp: constructor_def Let_def u registry_ok_assigned
        split: if_splits sum.splits)
qed

lemma constructor_update:
  assumes "constructor d sp opts = Inr m"
  shows "update m = (if debug m then Discarded else Terminal)"
  using assms
  by (auto simp: constructor_def Let_def split: if_splits sum.splits)


subsection \<open>States and lines\<close>

lemma state_ok_cases:
  "state_ok sp \<longleftrightarrow>
     sp_state sp = states_incomplete \<or> sp_state sp = states_success \<or> sp_state sp = states_error"
  by (auto simp: state_ok_def hasOwnProperty_def states_def states_incomplete_def
      states_success_def states_error_def)

lemma states_distinct:
  "states_incomplete \<noteq> states_success" "states_incomplete \<noteq> states_error"
  "states_success \<noteq> states_error"
  by (simp_all add: states_incomplete_def states_success_def states_error_def)

lemma states_members [simp]:
  "hasOwnProperty states states_incomplete" "hasOwnProperty states states_success"
  "hasOwnProperty states states_error"
  by (simp_all add: hasOwnProperty_def states_def states_incomplete_def states_success_def
      states_error_def)

lemma line_of_cong:
  assumes "indentStr m' = indentStr m" "currentFrame m' = currentFrame m"
    "incompleteColor m' = incompleteColor m" "successColor m' = successColor m"
    "errorColor m' = errorColor m" "successSymbol m' = successSymbol m"
    "errorSymbol m' = errorSymbol m"
  shows "line_of chalk m' sp = line_of chalk m sp"
  using assms by (simp add: line_of_def glyph_of_def color_of_def)

lemma line_of_current [simp]:
  "line_of chalk m (sp\<lparr>sp_current := x\<rparr>) = line_of chalk m sp"
  by (simp add: line_of_def glyph_of_def color_of_def)

lemma render_ok:
  assumes "state_ok sp" and "colors_ok chalk m"
  shows "render chalk m sp = Inr (sp\<lparr>sp_current := Some (line_of chalk m sp)\<rparr>)"
  using assms states_distinct
  by (auto simp: state_ok_cases colors_ok_def render_def switch_state_def line_of_def
      colored_def glyph_of_def color_of_def template_def split: option.splits)

lemma render_all_ok:
  assumes "list_all (\<lambda>e. state_ok (snd e)) sps" and "colors_ok chalk m"
  shows "render_all chalk m sps = Returned (rendered chalk m sps)"
  using assms
  by (induction sps) (auto simp: rendered_def render_ok)

lemma rendered_cong:
  assumes "indentStr m' = indentStr m" "currentFrame m' = currentFrame m"
    "incompleteColor m' = incompleteColor m" "successColor m' = successColor m"
    "errorColor m' = errorColor m" "successSymbol m' = successSymbol m"
    "errorSymbol m' = errorSymbol m"
  shows "rendered chalk m' sps = rendered chalk m sps"
  using line_of_cong [OF assms] by (simp add: rendered_def)

lemma rendered_rendered [simp]:
  "rendered chalk m (rendered chalk m' sps) = rendered chalk m sps"
  by (simp add: rendered_def)

lemma map_of_rendered:
  "map_of (rendered chalk m sps) k =
     map_option (\<lambda>sp. sp\<lparr>sp_current := Some (line_of chalk m sp)\<rparr>) (map_of sps k)"
  by (induction sps) (auto simp: rendered_def)

lemma current_rendered:
  "map current_string (rendered chalk m sps) = map (\<lambda>e. line_of chalk m (snd e)) sps"
  by (simp add: rendered_def current_string_def)

lemma allCompleted_rendered [simp]:
  "allCompleted (m\<lparr>spinners := rendered chalk m' (spinners m0)\<rparr>) = allCompleted m0"
  by (simp add: allCompleted_def rendered_def list_all_iff split_beta)

lemma states_ok_rendered [simp]:
  "states_ok (m\<lparr>spinners := rendered chalk m' (spinners m0)\<rparr>) = states_ok m0"
  by (simp add: states_ok_def rendered_def list_all_iff state_ok_def)

lemma line_of_terminal:
  "line_of chalk (advance m) (sp\<lparr>sp_state := states_success\<rparr>) =
     colored chalk (successColor m) (indentStr m @ successSymbol m @ '' '' @ sp_text sp)"
  "line_of chalk (advance m) (sp\<lparr>sp_state := states_error\<rparr>) =
     colored chalk (errorColor m) (indentStr m @ errorSymbol m @ '' '' @ sp_text sp)"
  using states_distinct by (simp_all add: line_of_def glyph_of_def color_of_def advance_def)

subsection \<open>One tick\<close>

lemma advance_simps [simp]:
  "spinners (advance m) = spinners m" "update (advance m) = update m"
  "clear (advance m) = clear m" "state (advance m) = state m"
  "debug (advance m) = debug m" "frames (advance m) = frames m"
  "frameCount (advance m) = frameCount m" "indentStr (advance m) = indentStr m"
  "incompleteColor (advance m) = incompleteColor m" "successColor (advance m) = successColor m"
  "errorColor (advance m) = errorColor m" "successSymbol (advance m) = successSymbol m"
  "errorSymbol (advance m) = errorSymbol m"
  "idx (advance m) = next_idx m" "currentFrame (advance m) = frame_at (frames m) (next_idx m)"
  by (simp_all add: advance_def)

lemma allCompleted_advance [simp]: "allCompleted (advance m) = allCompleted m"
  by (simp add: allCompleted_def)

lemma colors_ok_advance [simp]: "colors_ok chalk (advance m) = colors_ok chalk m"
  by (simp add: colors_ok_def)

lemma stop_simps [simp]:
  "inst (stop w) = inst w" "out_ops (stop w) = out_ops w" "next_timer (stop w) = next_timer w"
  by (simp_all add: stop_def split: option.splits)

lemma timers_stop:
  "timers (stop w) =
     (case state (inst w) of None \<Rightarrow> timers w | Some h \<Rightarrow> removeAll h (timers w))"
  by (simp add: stop_def split: option.splits)

lemma stop_disarms:
  "state (inst w) = Some h \<Longrightarrow> h \<notin> set (timers (stop w))"
  by (simp add: timers_stop)

lemma ticked_simps [simp]:
  "timers (ticked chalk EOL w) = timers w" "next_timer (ticked chalk EOL w) = next_timer w"
  "inst (ticked chalk EOL w) =
     (advance (inst w))\<lparr>spinners := rendered chalk (advance (inst w)) (spinners (inst w))\<rparr>"
  "out_ops (ticked chalk EOL w) = out_ops w @
         [Update (update (inst w))
            (join EOL (map (\<lambda>e. line_of chalk (advance (inst w)) (snd e)) (spinners (inst w))))]"
  by (simp_all add: ticked_def)

text \<open>A tick whose entries can all be rendered returns, and this is what it leaves.\<close>

lemma tick_returned:
  assumes r: "render_all chalk (advance (inst w)) (spinners (inst w)) =
      Returned (rendered chalk (advance (inst w)) (spinners (inst w)))"
  shows "tick chalk EOL w =
     Returned
       (if allCompleted (inst w)
        then (if clear (inst w)
              then (stop (ticked chalk EOL w))
                     \<lparr>out_ops := out_ops (ticked chalk EOL w) @ [Clear Terminal]\<rparr>
              else stop (ticked chalk EOL w))
        else ticked chalk EOL w)"
proof -
  have t: "tick chalk EOL w =
     (case render_all chalk (advance (inst w)) (spinners (advance (inst w))) of
           Threw e sps \<Rightarrow> Threw e (w\<lparr>inst := (advance (inst w))\<lparr>spinners := sps\<rparr>\<rparr>)
         | Returned sps \<Rightarrow>
             (let m2 = (advance (inst w))\<lparr>spinners := sps\<rparr>;
                  w1 = w\<lparr>inst := m2,
                         out_ops := out_ops w @
                           [Update (update m2) (join EOL (map current_string sps))]\<rparr>
              in if allCompleted m2
                 then (let w2 = stop w1
                       in if clear m2 then Returned (w2\<lparr>out_ops := out_ops w2 @ [Clear Terminal]\<rparr>)
                          else Returned w2)
                 else Returned w1))"
    unfolding tick_def Let_def advance_def by (rule refl)
  show ?thesis
    unfolding t
    by (simp add: r Let_def current_rendered ticked_def)
qed

lemma tick_ok:
  assumes "states_ok (inst w)" and "colors_ok chalk (inst w)"
  shows "tick chalk EOL w =
     Returned
       (if allCompleted (inst w)
        then (if clear (inst w)
              then (stop (ticked chalk EOL w))
                     \<lparr>out_ops := out_ops (ticked chalk EOL w) @ [Clear Terminal]\<rparr>
              else stop (ticked chalk EOL w))
        else ticked chalk EOL w)"
  using assms by (intro tick_returned) (simp add: render_all_ok states_ok_def)


text \<open>A tick keeps the entries in their states, and arms no timer.\<close>

lemma states_ok_tick:
  assumes "states_ok (inst w)" and "colors_ok chalk (inst w)"
    and "tick chalk EOL w = Returned w'"
  shows "states_ok (inst w') \<and> colors_ok chalk (inst w')"
  using assms(3) unfolding tick_ok [OF assms(1,2)]
  using assms(1,2) by (auto simp: colors_ok_def split: if_splits)

lemma timers_after_tick:
  "tick chalk EOL w = Returned w' \<Longrightarrow> timers w' = timers w \<or> timers w' = timers (stop w)"
  by (auto simp: tick_def Let_def stop_def split: outcome.splits option.splits if_splits)

lemma run_no_timers:
  "timers w = [] \<Longrightarrow> run chalk EOL hs w = Returned w"
  by (induction hs) (simp_all add: fire_def)

subsection \<open>Completion calls\<close>

lemma map_of_set_state_list:
  "map_of (map (\<lambda>(k, sp). if k = name then (k, sp\<lparr>sp_state := st\<rparr>) else (k, sp)) xs) k' =
     (if k' = name then map_option (\<lambda>sp. sp\<lparr>sp_state := st\<rparr>) (map_of xs k') else map_of xs k')"
  by (induction xs) auto

lemma set_state_simps [simp]:
  "timers (set_state name st w) = timers w" "next_timer (set_state name st w) = next_timer w"
  "out_ops (set_state name st w) = out_ops w"
  "state (inst (set_state name st w)) = state (inst w)"
  "map fst (spinners (inst (set_state name st w))) = map fst (spinners (inst w))"
  "colors_ok chalk (inst (set_state name st w)) = colors_ok chalk (inst w)"
  by (simp_all add: set_state_def colors_ok_def split_beta)

lemma entry_set_state [simp]:
  "entry_state k (set_state name st w) =
     (if k = name then map_option (\<lambda>s. st) (entry_state k w) else entry_state k w)"
  "entry_text k (set_state name st w) = entry_text k w"
  by (auto simp: entry_state_def entry_text_def set_state_def map_of_set_state_list
      option.map_comp comp_def)

lemma states_ok_set_state:
  assumes "states_ok (inst w)" and "hasOwnProperty states st"
  shows "states_ok (inst (set_state name st w))"
  using assms
  by (auto simp: states_ok_def set_state_def list_all_iff state_ok_def)

lemma start_simps [simp]:
  "timers (start w) = timers w @ [next_timer w]" "next_timer (start w) = Suc (next_timer w)"
  "out_ops (start w) = out_ops w" "inst (start w) = (inst w)\<lparr>state := Some (next_timer w)\<rparr>"
  by (simp_all add: start_def loop_def Let_def)

lemma entry_start [simp]:
  "entry_state k (start w) = entry_state k w" "entry_text k (start w) = entry_text k w"
  by (simp_all add: entry_state_def entry_text_def)

lemma entry_stop [simp]:
  "entry_state k (stop w) = entry_state k w" "entry_text k (stop w) = entry_text k w"
  by (simp_all add: entry_state_def entry_text_def)

lemma hasOwnProperty_entry:
  "hasOwnProperty (spinners (inst w)) name \<longleftrightarrow> entry_state name w \<noteq> None"
  by (simp add: hasOwnProperty_def entry_state_def)

lemma complete_returns:
  assumes "hasOwnProperty (spinners (inst w)) name" and "hasOwnProperty states st"
  shows "complete name st w = Returned (start (set_state name st (stop w)))"
  using assms by (simp add: complete_def Let_def hasOwnProperty_def)

text \<open>
  A loop that runs on its own still does after a completion call, and so does the loop
  that \<open>start\<close> arms when no timer is armed.
\<close>

lemma running_start:
  "timers w = [] \<Longrightarrow> running (start w)"
  by (simp add: running_def)

lemma running_complete:
  assumes "running w"
  shows "running (start (set_state name st (stop w)))"
  using assms by (auto simp: running_def timers_stop split: option.splits)

lemma states_ok_complete:
  assumes "states_ok (inst w)" and "complete name st w = Returned w'"
  shows "states_ok (inst w')"
proof -
  have "hasOwnProperty states st" and "w' = start (set_state name st (stop w))"
    using assms(2) by (auto simp: complete_def Let_def split: if_splits)
  then show ?thesis
    using states_ok_set_state [of "stop w" st name] assms(1) by (simp add: states_ok_def)
qed

text \<open>What the tick after a completion shows for the completed entry.\<close>

lemma complete_then_tick:
  assumes p: "hasOwnProperty (spinners (inst w)) name"
    and s: "states_ok (inst w)" and c: "colors_ok chalk (inst w)"
    and st: "hasOwnProperty states st"
  shows "\<exists>w''. fire chalk EOL (next_timer w) (start (set_state name st (stop w))) = Returned w''
     \<and> entry_current name w'' =
         map_option (\<lambda>sp. Some (line_of chalk (advance (inst w)) (sp\<lparr>sp_state := st\<rparr>)))
           (map_of (spinners (inst w)) name)"
proof -
  let ?w' = "start (set_state name st (stop w))"
  have s': "states_ok (inst ?w')"
    using states_ok_set_state [OF _ st, of "stop w" name] s by (simp add: states_ok_def)
  have c': "colors_ok chalk (inst ?w')"
    using c by (simp add: colors_ok_def set_state_def)
  have a: "next_timer w \<in> set (timers ?w')"
    by simp
  have l: "line_of chalk (advance (inst ?w')) sp = line_of chalk (advance (inst w)) sp" for sp
    by (rule line_of_cong) (simp_all add: set_state_def next_idx_def split: option.splits)
  have m: "map_of (spinners (inst ?w')) name =
      map_option (\<lambda>sp. sp\<lparr>sp_state := st\<rparr>) (map_of (spinners (inst w)) name)"
    by (simp add: set_state_def map_of_set_state_list)
  have e: "entry_current name (ticked chalk EOL ?w') =
         map_option (\<lambda>sp. Some (line_of chalk (advance (inst w)) (sp\<lparr>sp_state := st\<rparr>)))
           (map_of (spinners (inst w)) name)"
    unfolding entry_current_def ticked_simps
    by (simp add: map_of_rendered m l option.map_comp comp_def del: start_simps)
  have e2: "entry_current name (stop v) = entry_current name v"
    "entry_current name (v\<lparr>out_ops := x\<rparr>) = entry_current name v" for v x
    by (simp_all add: entry_current_def)
  show ?thesis
    using a e by (simp add: fire_def tick_ok [OF s' c'] e2 del: start_simps)
qed

subsection \<open>Many ticks\<close>

lemma advance_displayed:
  assumes "idx m = Some k" and "0 < frameCount m"
  shows "(advance m)\<lparr>spinners := rendered chalk (advance m) (spinners m)\<rparr> =
     displayed chalk m (Suc k mod frameCount m)"
proof -
  have n: "next_idx m = Some (Suc k mod frameCount m)"
    using assms by (simp add: next_idx_def)
  have "rendered chalk (advance m) (spinners m) =
      rendered chalk (m\<lparr>currentFrame := frame_at (frames m) (Some (Suc k mod frameCount m))\<rparr>)
        (spinners m)"
    by (rule rendered_cong) (simp_all add: n)
  then show ?thesis
    by (simp add: displayed_def advance_def n)
qed

lemma displayed_displayed:
  "displayed chalk (displayed chalk m i) j = displayed chalk m j"
proof -
  have "rendered chalk ((displayed chalk m i)\<lparr>currentFrame := frame_at (frames m) (Some j)\<rparr>) sps
      = rendered chalk (m\<lparr>currentFrame := frame_at (frames m) (Some j)\<rparr>) sps" for sps
    by (rule rendered_cong) (simp_all add: displayed_def)
  then show ?thesis
    by (simp add: displayed_def)
qed

lemma displayed_simps [simp]:
  "frameCount (displayed chalk m j) = frameCount m" "frames (displayed chalk m j) = frames m"
  "idx (displayed chalk m j) = Some j"
  "currentFrame (displayed chalk m j) = frame_at (frames m) (Some j)"
  "allCompleted (displayed chalk m j) = allCompleted m"
  "states_ok (displayed chalk m j) = states_ok m"
  "colors_ok chalk' (displayed chalk m j) = colors_ok chalk' m"
  by (simp_all add: displayed_def colors_ok_def)

lemma displayed_incomplete:
  assumes "e \<in> set (spinners (displayed chalk m j))" and "sp_state (snd e) = states_incomplete"
    and "j < length (frames m)"
  shows "sp_current (snd e) =
     Some (colored chalk (incompleteColor m) (indentStr m @ frames m ! j @ '' '' @ sp_text (snd e)))"
  using assms
  by (auto simp: displayed_def rendered_def line_of_def glyph_of_def color_of_def frame_at_def
      template_def)

lemma one_tick:
  assumes "h \<in> set (timers w)" and "\<not> allCompleted (inst w)"
    and "states_ok (inst w)" and "colors_ok chalk (inst w)"
    and "0 < frameCount (inst w)" and "idx (inst w) = Some k"
  shows "\<exists>w1. fire chalk EOL h w = Returned w1 \<and> timers w1 = timers w
          \<and> inst w1 = displayed chalk (inst w) (Suc k mod frameCount (inst w))"
  using assms
  by (simp add: fire_def tick_ok advance_displayed)

text \<open>
  While an entry is Incomplete every tick of an armed timer moves the cursor one
  position on, whichever of the armed timers it comes from.
\<close>

lemma ticks_advance:
  assumes "hs \<noteq> []" and "set hs \<subseteq> set (timers w)" and "\<not> allCompleted (inst w)"
    and "states_ok (inst w)" and "colors_ok chalk (inst w)"
    and "0 < frameCount (inst w)" and "idx (inst w) = Some k"
  shows "\<exists>wn. run chalk EOL hs w = Returned wn \<and> timers wn = timers w
          \<and> inst wn = displayed chalk (inst w) ((k + length hs) mod frameCount (inst w))"
  using assms
proof (induction hs arbitrary: w k rule: list_nonempty_induct)
  case (single h)
  then show ?case
    using one_tick [of h w chalk k EOL] by auto
next
  case (cons h hs)
  obtain w1 where w1: "fire chalk EOL h w = Returned w1" "timers w1 = timers w"
      "inst w1 = displayed chalk (inst w) (Suc k mod frameCount (inst w))"
    using one_tick [of h w chalk k EOL] cons.prems by auto
  have "\<exists>wn. run chalk EOL hs w1 = Returned wn \<and> timers wn = timers w1
          \<and> inst wn = displayed chalk (inst w1)
               ((Suc k mod frameCount (inst w) + length hs) mod frameCount (inst w1))"
    using cons.prems w1 by (intro cons.IH) simp_all
  then obtain wn where wn: "run chalk EOL hs w1 = Returned wn" "timers wn = timers w1"
      "inst wn = displayed chalk (inst w1)
               ((Suc k mod frameCount (inst w) + length hs) mod frameCount (inst w1))"
    by blast
  have "(Suc k mod frameCount (inst w) + length hs) mod frameCount (inst w)
      = (k + length (h # hs)) mod frameCount (inst w)"
    by (simp add: mod_add_left_eq)
  then show ?case
    using w1 wn by (simp add: displayed_displayed)
qed

subsection \<open>The examples\<close>

lemma example_world_ok:
  "hasOwnProperty (spinners (inst example_world)) ''a''"
  "states_ok (inst example_world)" "colors_ok ansi (inst example_world)"
  "running example_world" "state (inst example_world) = Some 0"
  "\<not> allCompleted (inst example_world)"
  by (simp_all add: hasOwnProperty_def example_world_def fresh_world_def example_instance_def
      states_ok_def state_ok_def states_def colors_ok_def ansi_def clone_defaults_def
      example_defaults_def running_def allCompleted_def states_incomplete_def)

lemma example_world_frames:
  "0 \<in> set (timers example_world)" "set [0, 0, 0, 0] \<subseteq> set (timers example_world)"
  "length [0, 0, 0, 0 :: nat] = length (frames (inst example_world))"
  "frameCount (inst example_world) = length (frames (inst example_world))"
  "0 < length (frames (inst example_world))" "idx (inst example_world) = Some 0"
  "frames (inst example_world) ! 0 = ''-''"
  by (simp_all add: example_world_def fresh_world_def example_instance_def clone_defaults_def
      example_defaults_def)

text \<open>
  After two calls of \<open>start\<close> and the completion of both tasks, the tick of the timer
  the instance holds stops that timer only: the first timer stays armed, and its next
  tick writes the block once more.
\<close>

lemma example_leaked_keeps_ticking:
  "timers example_leaked = [0, 3]" "state (inst example_leaked) = Some 3"
  "allCompleted (inst example_leaked)"
  "timers (left_behind (fire ansi newline 3 example_leaked)) = [0]"
  "length (out_ops (left_behind (fire ansi newline 3 example_leaked))) = 1"
  "length (out_ops (left_behind (fire ansi newline 0
     (left_behind (fire ansi newline 3 example_leaked))))) = 2"
  by (simp_all add: example_leaked_def error_def success_def complete_def hasOwnProperty_def
      states_def states_success_def states_error_def stop_def set_state_def left_behind_def
      fresh_world_def example_instance_def clone_defaults_def example_defaults_def
      allCompleted_def states_incomplete_def Let_def fire_def tick_def next_idx_def
      frame_at_def render_def switch_state_def template_def ansi_def current_string_def)

lemma example_done_ok:
  "running example_done" "state (inst example_done) = Some 2"
  "allCompleted (inst example_done)" "states_ok (inst example_done)"
  "colors_ok ansi (inst example_done)" "\<not> clear (inst example_done)"
  by (simp_all add: example_done_def error_def success_def complete_def hasOwnProperty_def
      states_def states_success_def states_error_def stop_def set_state_def left_behind_def
      example_world_def fresh_world_def example_instance_def clone_defaults_def
      example_defaults_def running_def allCompleted_def states_ok_def state_ok_def colors_ok_def
      ansi_def states_incomplete_def Let_def)

section \<open>The claims\<close>

subsection \<open>C1: one timer at a time\<close>

text \<open>
  C1 asks that at most one timer is armed at any time, a start while the loop runs
  included. \<open>complete\<close> stops before it starts again, but \<open>start\<close> alone arms a timer
  without stopping the one that runs: after two calls of \<open>start\<close> on a new instance two
  timers are armed, the instance holds the handle of the second only, and \<open>stop\<close> leaves
  the first one armed.
\<close>

theorem start_twice_two_timers:
  "timers (start (start (fresh_world example_instance))) = [0, 1]
   \<and> state (inst (start (start (fresh_world example_instance)))) = Some 1
   \<and> timers (stop (start (start (fresh_world example_instance)))) = [0]"
  by (simp add: fresh_world_def stop_def)

subsection \<open>C2: the state value of a completion\<close>




subsection \<open>C3: the lines of a tick\<close>

text \<open>
  C3, as the code has it: a tick on entries in states of the table, with colours chalk
  knows, returns; it leaves the names of the registry and their order as they were; the
  line of every entry is the indentation, the glyph, a blank and the label, painted as
  a whole in the colour of the entry's state, where the glyph is the frame the tick has
  just made current for an Incomplete entry and the success or error symbol for a
  terminal one; and the block written is these lines, in the order of the registry's
  names, joined with the line separator. No completion call changes that order.
\<close>

theorem tick_lines_in_registry_order:
  assumes s: "states_ok (inst w)" and c: "colors_ok chalk (inst w)"
  shows "\<exists>w'. tick chalk EOL w = Returned w'
      \<and> map fst (spinners (inst w')) = map fst (spinners (inst w))
      \<and> map (\<lambda>e. sp_current (snd e)) (spinners (inst w')) =
          map (\<lambda>e. Some (line_of chalk (inst w') (snd e))) (spinners (inst w))
      \<and> currentFrame (inst w') = frame_at (frames (inst w)) (next_idx (inst w))
      \<and> out_ops w' = out_ops w
           @ [Update (update (inst w))
                (join EOL (map (\<lambda>e. line_of chalk (inst w') (snd e)) (spinners (inst w))))]
           @ (if allCompleted (inst w) \<and> clear (inst w) then [Clear Terminal] else [])
      \<and> (\<forall>name st v. complete name st w = Returned v \<longrightarrow>
            map fst (spinners (inst v)) = map fst (spinners (inst w)))"
proof -
  let ?t = "ticked chalk EOL w"
  let ?w' = "if allCompleted (inst w)
        then (if clear (inst w)
              then (stop ?t)\<lparr>out_ops := out_ops ?t @ [Clear Terminal]\<rparr>
              else stop ?t)
        else ?t"
  have t: "tick chalk EOL w = Returned ?w'"
    by (rule tick_ok [OF s c])
  have i: "inst ?w' = inst ?t"
    by simp
  have l: "line_of chalk (inst ?w') sp = line_of chalk (advance (inst w)) sp" for sp
    unfolding i by (rule line_of_cong) simp_all
  have 1: "map fst (spinners (inst ?w')) = map fst (spinners (inst w))"
    unfolding i by (simp add: rendered_def comp_def)
  have 2: "map (\<lambda>e. sp_current (snd e)) (spinners (inst ?w')) =
          map (\<lambda>e. Some (line_of chalk (inst ?w') (snd e))) (spinners (inst w))"
    unfolding l unfolding i by (simp add: rendered_def comp_def)
  have 3: "currentFrame (inst ?w') = frame_at (frames (inst w)) (next_idx (inst w))"
    unfolding i by simp
  have 4: "out_ops ?w' = out_ops w
           @ [Update (update (inst w))
                (join EOL (map (\<lambda>e. line_of chalk (inst ?w') (snd e)) (spinners (inst w))))]
           @ (if allCompleted (inst w) \<and> clear (inst w) then [Clear Terminal] else [])"
    unfolding l by simp
  have 5: "\<forall>name st v. complete name st w = Returned v \<longrightarrow>
            map fst (spinners (inst v)) = map fst (spinners (inst w))"
    by (auto simp: complete_def Let_def split: if_splits)
  show ?thesis
    using t 1 2 3 4 5 by (intro exI [of _ ?w']) blast
qed

theorem tick_lines_in_registry_order_witness:
  "states_ok (inst example_world) \<and> colors_ok ansi (inst example_world)
   \<and> (\<exists>w'. tick ansi newline example_world = Returned w'
      \<and> map fst (spinners (inst w')) = map fst (spinners (inst example_world))
      \<and> map (\<lambda>e. sp_current (snd e)) (spinners (inst w')) =
          map (\<lambda>e. Some (line_of ansi (inst w') (snd e))) (spinners (inst example_world)))"
  using tick_lines_in_registry_order [OF example_world_ok(2,3), of newline]
    example_world_ok(2,3)
  by blast

text \<open>
  C3 as stated fails twice. The indentation is inside the paint, not in front of it: on
  the first tick of the two tasks the line of \<open>a\<close> starts with the escape sequence, where
  the stated line starts with the two blanks. And the order of the registry is not
  always the order of insertion: built from the array of \<open>b\<close> and \<open>1\<close>, the registry
  lists \<open>1\<close> first, as \<open>Object.keys\<close> does with a name that is an array index.
\<close>

theorem tick_line_paints_indent:
  "entry_current ''a'' (left_behind (tick ansi newline example_world)) =
     Some (Some (CHR 0x1B # ''[34m  '' @ [CHR 0x5C] @ '' Task A'' @ CHR 0x1B # ''[39m''))
   \<and> indent_outside_line ansi (inst (left_behind (tick ansi newline example_world)))
        \<lparr>sp_state = ''incomplete'', sp_current = None, sp_text = ''Task A''\<rparr> =
     ''  '' @ CHR 0x1B # ''[34m'' @ [CHR 0x5C] @ '' Task A'' @ CHR 0x1B # ''[39m''
   \<and> entry_current ''a'' (left_behind (tick ansi newline example_world)) \<noteq>
     Some (Some (indent_outside_line ansi (inst (left_behind (tick ansi newline example_world)))
        \<lparr>sp_state = ''incomplete'', sp_current = None, sp_text = ''Task A''\<rparr>))
   \<and> map_sum id (\<lambda>m. map fst (spinners m))
        (constructor example_defaults (JArray [JStr ''b'', JStr ''1'']) JUndefined)
      = Inr [''1'', ''b'']"
  by (simp add: entry_current_def left_behind_def tick_def Let_def next_idx_def frame_at_def
      render_def switch_state_def template_def ansi_def current_string_def allCompleted_def
      example_world_def fresh_world_def example_instance_def clone_defaults_def
      example_defaults_def states_incomplete_def states_success_def states_error_def
      indent_outside_line_def colored_def color_of_def glyph_of_def
      constructor_def validOpts_def createSpinner_def js_set_def array_index_letters
      array_index_one)

subsection \<open>C4: the debug flag\<close>

text \<open>
  C4 asks that with the debug flag no output operation reaches the terminal. The blocks
  of the ticks go to the discarding instance, but the clear on completion is called on
  the terminal's \<open>log-update\<close> instance whatever the flag: an instance built with
  \<open>debug\<close> and \<open>clear\<close>, started, its one spinner completed, clears the terminal on the
  next tick.
\<close>

theorem debug_clear_reaches_terminal:
  "constructor example_defaults (JArray [JStr ''a''])
      (JObject [(''debug'', JBool True), (''clear'', JBool True)]) = Inr example_debug_instance
   \<and> debug example_debug_instance
   \<and> out_ops (left_behind (fire ansi newline 1
        (left_behind (success ''a'' (start (fresh_world example_debug_instance))))))
      = [Update Discarded (CHR 0x1B # ''[32m  + a'' @ CHR 0x1B # ''[39m''), Clear Terminal]"
  by (simp add: constructor_def Let_def validOpts_def valid_opt_def assign_def js_get_def
      createSpinner_def js_set_def array_index_letters example_debug_instance_def
      clone_defaults_def example_defaults_def states_incomplete_def
      success_def complete_def hasOwnProperty_def states_def states_success_def states_error_def
      stop_def fresh_world_def set_state_def left_behind_def fire_def
      tick_def next_idx_def frame_at_def render_def switch_state_def template_def ansi_def
      current_string_def allCompleted_def newline_def)

subsection \<open>C5: what a completion call does\<close>

text \<open>
  C5: for a name the registry holds, \<open>success\<close> returns the state in which first the
  timer of the handle was stopped, then the entry's state set to Success, then the loop
  started. When the state is set the old timer is not armed; afterwards the armed timers
  are those that \<open>stop\<close> left and the new one, whose handle the instance holds; a loop
  that ran on its own still does; and the next tick of the new timer returns and shows
  the entry with the success symbol in the success colour. The same holds for \<open>error\<close>
  with Error, the error symbol and the error colour.
\<close>

theorem completion_stops_sets_starts:
  assumes p: "hasOwnProperty (spinners (inst w)) name"
    and s: "states_ok (inst w)" and c: "colors_ok chalk (inst w)"
  shows
    "(\<exists>w'. success name w = Returned w'
        \<and> w' = start (set_state name states_success (stop w))
        \<and> (\<forall>h. state (inst w) = Some h \<longrightarrow> h \<notin> set (timers (stop w)))
        \<and> timers w' = timers (stop w) @ [next_timer w]
        \<and> state (inst w') = Some (next_timer w)
        \<and> (running w \<longrightarrow> running w')
        \<and> entry_state name w' = Some states_success
        \<and> (\<exists>w''. fire chalk EOL (next_timer w) w' = Returned w''
               \<and> entry_current name w'' =
                   map_option (\<lambda>t. Some (colored chalk (successColor (inst w))
                       (indentStr (inst w) @ successSymbol (inst w) @ '' '' @ t)))
                     (entry_text name w)))
     \<and> (\<exists>w'. error name w = Returned w'
        \<and> w' = start (set_state name states_error (stop w))
        \<and> (\<forall>h. state (inst w) = Some h \<longrightarrow> h \<notin> set (timers (stop w)))
        \<and> timers w' = timers (stop w) @ [next_timer w]
        \<and> state (inst w') = Some (next_timer w)
        \<and> (running w \<longrightarrow> running w')
        \<and> entry_state name w' = Some states_error
        \<and> (\<exists>w''. fire chalk EOL (next_timer w) w' = Returned w''
               \<and> entry_current name w'' =
                   map_option (\<lambda>t. Some (colored chalk (errorColor (inst w))
                       (indentStr (inst w) @ errorSymbol (inst w) @ '' '' @ t)))
                     (entry_text name w)))"
proof -
  have e: "entry_state name w \<noteq> None"
    using p by (simp add: hasOwnProperty_entry)
  have 1: "success name w = Returned (start (set_state name states_success (stop w)))"
    "error name w = Returned (start (set_state name states_error (stop w)))"
    using p by (simp_all add: success_def error_def complete_returns)
  have 2: "entry_state name (start (set_state name st (stop w))) = Some st" for st
    using e by auto
  have 3: "\<exists>w''. fire chalk EOL (next_timer w) (start (set_state name states_success (stop w)))
        = Returned w''
      \<and> entry_current name w'' =
          map_option (\<lambda>t. Some (colored chalk (successColor (inst w))
              (indentStr (inst w) @ successSymbol (inst w) @ '' '' @ t))) (entry_text name w)"
    using complete_then_tick [OF p s c, of states_success EOL]
    by (simp add: line_of_terminal entry_text_def option.map_comp comp_def del: start_simps)
  have 4: "\<exists>w''. fire chalk EOL (next_timer w) (start (set_state name states_error (stop w)))
        = Returned w''
      \<and> entry_current name w'' =
          map_option (\<lambda>t. Some (colored chalk (errorColor (inst w))
              (indentStr (inst w) @ errorSymbol (inst w) @ '' '' @ t))) (entry_text name w)"
    using complete_then_tick [OF p s c, of states_error EOL]
    by (simp add: line_of_terminal entry_text_def option.map_comp comp_def del: start_simps)
  have 5: "running w \<longrightarrow> running (start (set_state name st (stop w)))" for st
    using running_complete by blast
  have 6: "timers (start (set_state name st (stop w))) = timers (stop w) @ [next_timer w]"
    "state (inst (start (set_state name st (stop w)))) = Some (next_timer w)" for st
    by simp_all
  show ?thesis
    unfolding 1 using 2 3 4 5 6 stop_disarms by (simp del: start_simps)
qed

theorem completion_stops_sets_starts_witness:
  "hasOwnProperty (spinners (inst example_world)) ''a''
   \<and> states_ok (inst example_world) \<and> colors_ok ansi (inst example_world)
   \<and> (\<exists>w'. success ''a'' example_world = Returned w'
        \<and> entry_state ''a'' w' = Some states_success
        \<and> (\<exists>w''. fire ansi newline (next_timer example_world) w' = Returned w''
               \<and> entry_current ''a'' w'' =
                   map_option (\<lambda>t. Some (colored ansi (successColor (inst example_world))
                       (indentStr (inst example_world) @ successSymbol (inst example_world)
                          @ '' '' @ t)))
                     (entry_text ''a'' example_world)))"
  using completion_stops_sets_starts [OF example_world_ok(1,2,3), of newline]
    example_world_ok(1,2,3)
  by blast

subsection \<open>C6: the last completion wins\<close>

text \<open>
  C6: for a name the registry holds, \<open>success\<close> and then \<open>error\<close> both return and leave
  the entry in the state Error; and on an entry that is already terminal a completion
  call with Success or Error returns, leaves the entry in the state it was given, and
  changes neither its text nor the names of the registry.
\<close>

theorem completion_last_write_wins:
  assumes p: "hasOwnProperty (spinners (inst w)) name"
  shows
    "(\<exists>w1 w2. success name w = Returned w1 \<and> error name w1 = Returned w2
        \<and> entry_state name w2 = Some states_error)
     \<and> (\<forall>st. st \<in> {states_success, states_error}
            \<and> entry_state name w \<in> {Some states_success, Some states_error}
          \<longrightarrow> (\<exists>w'. complete name st w = Returned w' \<and> entry_state name w' = Some st
                 \<and> entry_text name w' = entry_text name w
                 \<and> map fst (spinners (inst w')) = map fst (spinners (inst w))))"
proof -
  have e: "entry_state name w \<noteq> None"
    using p by (simp add: hasOwnProperty_entry)
  let ?w1 = "start (set_state name states_success (stop w))"
  have 1: "success name w = Returned ?w1"
    using p by (simp add: success_def complete_returns)
  have p1: "hasOwnProperty (spinners (inst ?w1)) name"
    using e by (simp add: hasOwnProperty_entry)
  have 2: "error name ?w1 = Returned (start (set_state name states_error (stop ?w1)))"
    using p1 by (simp add: error_def complete_returns)
  have 3: "entry_state name (start (set_state name states_error (stop ?w1))) = Some states_error"
    using e by simp
  have 4: "st \<in> {states_success, states_error} \<Longrightarrow>
      complete name st w = Returned (start (set_state name st (stop w)))" for st
    using p by (auto simp: complete_returns)
  have 5: "entry_state name (start (set_state name st (stop w))) = Some st" for st
    using e by auto
  have 6: "entry_text name (start (set_state name st (stop w))) = entry_text name w"
    "map fst (spinners (inst (start (set_state name st (stop w))))) = map fst (spinners (inst w))"
    for st
    by simp_all
  show ?thesis
    using 1 2 3 4 5 6 by (simp del: start_simps)
qed

theorem completion_last_write_wins_witness:
  "hasOwnProperty (spinners (inst example_world)) ''a''
   \<and> (\<exists>w1 w2. success ''a'' example_world = Returned w1 \<and> error ''a'' w1 = Returned w2
        \<and> entry_state ''a'' w2 = Some states_error)"
  using completion_last_write_wins [OF example_world_ok(1)] example_world_ok(1)
  by blast

subsection \<open>C7: the loop stops itself\<close>

text \<open>
  C7 asks that once every entry is terminal the loop stops on the next tick, that
  nothing is advanced or drawn afterwards, and that \<open>clear\<close> is called exactly once when
  the flag is set. The tick stops the timer whose handle the instance holds, and no
  other. An instance built with \<open>clear\<close>, started twice, its one spinner completed, has
  the timers 0 and 2 armed and holds the handle 2: the tick of timer 2 leaves timer 0
  armed, the ticks of timer 0 go on moving the cursor and writing the block, and each of
  them calls \<open>clear\<close> again, four calls after four ticks. The timer left armed is the one
  of C1: \<open>start\<close> does not stop the timer that runs.
\<close>

theorem leaked_timer_outlives_completion:
  "constructor example_defaults (JArray [JStr ''a'']) (JObject [(''clear'', JBool True)])
     = Inr example_clear_instance
   \<and> allCompleted (inst example_clear_leaked)
   \<and> timers example_clear_leaked = [0, 2]
   \<and> state (inst example_clear_leaked) = Some 2
   \<and> timers (left_behind (fire ansi newline 2 example_clear_leaked)) = [0]
   \<and> idx (inst (left_behind (fire ansi newline 2 example_clear_leaked))) = Some 1
   \<and> idx (inst (left_behind (run ansi newline [2, 0] example_clear_leaked))) = Some 2
   \<and> length (out_ops (left_behind (run ansi newline [2, 0] example_clear_leaked))) = 4
   \<and> timers (left_behind (run ansi newline [2, 0, 0, 0] example_clear_leaked)) = [0]
   \<and> clears (out_ops (left_behind (run ansi newline [2, 0, 0, 0] example_clear_leaked))) = 4
   \<and> length (out_ops (left_behind (run ansi newline [2, 0, 0, 0] example_clear_leaked))) = 8"
  by (simp add: constructor_def validOpts_def valid_opt_def assign_def js_get_def
      createSpinner_def js_set_def array_index_letters
      example_clear_leaked_def example_clear_instance_def success_def complete_def
      hasOwnProperty_def states_def states_success_def states_error_def stop_def set_state_def
      left_behind_def fresh_world_def clone_defaults_def example_defaults_def
      allCompleted_def states_incomplete_def Let_def fire_def tick_def next_idx_def
      frame_at_def render_def switch_state_def template_def ansi_def current_string_def
      clears_def)

text \<open>
  Where the loop runs on its own (the timer of the handle is armed and no other is),
  every entry is terminal and the tick can render them, the next tick does return with
  no timer armed, so whatever is scheduled afterwards changes nothing: no cursor moves,
  no block is written. That last tick writes its block and then, if \<open>clear\<close> is set,
  calls \<open>clear\<close> once on the terminal's \<open>log-update\<close> instance; if \<open>clear\<close> is not set it
  makes no such call.
\<close>

lemma loop_stops_when_all_completed:
  assumes r: "running w" and h: "state (inst w) = Some h"
    and a: "allCompleted (inst w)"
    and s: "states_ok (inst w)" and c: "colors_ok chalk (inst w)"
  shows "\<exists>w'. fire chalk EOL h w = Returned w'
          \<and> timers w' = []
          \<and> (\<forall>hs. run chalk EOL hs w' = Returned w')
          \<and> out_ops w' = out_ops w
               @ [Update (update (inst w))
                    (join EOL (map (\<lambda>e. line_of chalk (inst w') (snd e)) (spinners (inst w))))]
               @ (if clear (inst w) then [Clear Terminal] else [])
          \<and> clears (out_ops w') = clears (out_ops w) + (if clear (inst w) then 1 else 0)"
proof -
  have t: "timers w = [h]"
    using r h by (simp add: running_def)
  let ?w' = "if clear (inst w)
        then (stop (ticked chalk EOL w))\<lparr>out_ops := out_ops (ticked chalk EOL w) @ [Clear Terminal]\<rparr>
        else stop (ticked chalk EOL w)"
  have f: "fire chalk EOL h w = Returned ?w'"
    using t a by (simp add: fire_def tick_ok [OF s c])
  have 1: "timers ?w' = []"
    using t h by (simp add: timers_stop)
  have l: "line_of chalk (inst ?w') sp = line_of chalk (advance (inst w)) sp" for sp
    by (rule line_of_cong) simp_all
  have 2: "out_ops ?w' = out_ops w
               @ [Update (update (inst w))
                    (join EOL (map (\<lambda>e. line_of chalk (inst ?w') (snd e)) (spinners (inst w))))]
               @ (if clear (inst w) then [Clear Terminal] else [])"
    unfolding l by simp
  have 3: "clears (out_ops ?w') = clears (out_ops w) + (if clear (inst w) then 1 else 0)"
    by (simp add: clears_def)
  show ?thesis
    using f 1 2 3 run_no_timers [OF 1] by (intro exI [of _ ?w']) blast
qed

lemma loop_stops_when_all_completed_example:
  "running example_done \<and> state (inst example_done) = Some 2
   \<and> allCompleted (inst example_done) \<and> states_ok (inst example_done)
   \<and> colors_ok ansi (inst example_done)
   \<and> (\<exists>w'. fire ansi newline 2 example_done = Returned w' \<and> timers w' = []
          \<and> (\<forall>hs. run ansi newline hs w' = Returned w')
          \<and> clears (out_ops w') = clears (out_ops example_done))"
  using loop_stops_when_all_completed [OF example_done_ok(1,2,3,4,5), of newline]
    example_done_ok
  by auto

subsection \<open>C8: the checks of the constructor\<close>

text \<open>
  C8, as the code has it: construction fails with a ConfigurationError exactly when the
  spinners argument is neither an array nor an object, or the options argument is truthy
  and not an object; it fails in no other way, so every other input gives an instance.
  A falsy options argument (\<open>undefined\<close>, \<open>null\<close>, \<open>false\<close>, \<open>0\<close>, the empty string) counts
  as not given. The constructor has no timer at hand, and a failure returns no instance.
\<close>

theorem constructor_fails_iff:
  "(is_ConfigurationError (constructor d sp opts)
      \<longleftrightarrow> (kindOf sp \<noteq> ''array'' \<and> kindOf sp \<noteq> ''object'')
          \<or> (truthy opts \<and> kindOf opts \<noteq> ''object''))
   \<and> (isl (constructor d sp opts) \<longleftrightarrow> is_ConfigurationError (constructor d sp opts))"
  by (cases sp; cases opts)
     (simp_all add: constructor_def Let_def is_ConfigurationError_def errs_spinnersType_def
       errs_optsType_def validOpts_def)

theorem constructor_fails_iff_witness:
  "is_ConfigurationError (constructor example_defaults (JArray [JStr ''x'', JStr ''y'']) (JNum 5))
   \<and> \<not> isl (constructor example_defaults
               (JObject [(''a'', JStr ''Task A''), (''b'', JStr ''Task B'')]) JUndefined)"
  using constructor_fails_iff [of example_defaults "JArray [JStr ''x'', JStr ''y'']" "JNum 5"]
    constructor_fails_iff [of example_defaults
      "JObject [(''a'', JStr ''Task A''), (''b'', JStr ''Task B'')]" JUndefined]
  by simp

text \<open>
  C8 as stated fails at the options argument \<open>false\<close>: it is given and it is no mapping,
  and construction succeeds.
\<close>

theorem constructor_accepts_false_opts:
  "JBool False \<noteq> JUndefined \<and> kindOf (JBool False) \<noteq> ''object''
   \<and> \<not> isl (constructor example_defaults (JArray [JStr ''x'', JStr ''y'']) (JBool False))"
  by (simp add: constructor_def Let_def validOpts_def)

subsection \<open>C9: the frame cursor\<close>

text \<open>
  C9 asks that the cursor moves modulo the length of the frame sequence, so that for
  every configured sequence of \<open>N\<close> frames an Incomplete entry shows the first frame
  again after \<open>N\<close> ticks. The tick reduces the cursor modulo \<open>this.frameCount\<close>, and the
  constructor copies a \<open>frames\<close> option without touching that count. Built with the two
  frames \<open>p\<close> and \<open>q\<close> over defaults of four frames, the instance has two frames and the
  count four: the first tick shows \<open>q\<close>, and after the second tick the cursor is at
  position 2, no frame is current, and the line of the Incomplete entry reads
  \<open>undefined\<close> where the first frame \<open>p\<close> is due.
\<close>

theorem configured_frames_keep_default_count:
  "constructor example_defaults (JArray [JStr ''a''])
      (JObject [(''frames'', JArray [JStr ''p'', JStr ''q''])]) = Inr example_frames_instance
   \<and> frames example_frames_instance = [''p'', ''q'']
   \<and> frameCount example_frames_instance = 4
   \<and> idx example_frames_instance = Some 0
   \<and> currentFrame (inst (left_behind (fire ansi newline 0
         (start (fresh_world example_frames_instance))))) = Some ''q''
   \<and> thrown (run ansi newline [0, 0] (start (fresh_world example_frames_instance))) = None
   \<and> idx (inst (left_behind (run ansi newline [0, 0]
         (start (fresh_world example_frames_instance))))) = Some 2
   \<and> currentFrame (inst (left_behind (run ansi newline [0, 0]
         (start (fresh_world example_frames_instance))))) = None
   \<and> entry_state ''a'' (left_behind (run ansi newline [0, 0]
         (start (fresh_world example_frames_instance)))) = Some states_incomplete
   \<and> entry_current ''a'' (left_behind (run ansi newline [0, 0]
         (start (fresh_world example_frames_instance))))
       = Some (Some (CHR 0x1B # ''[34m  undefined a'' @ CHR 0x1B # ''[39m''))"
  by (simp add: constructor_def validOpts_def valid_opt_def assign_def js_get_def
      createSpinner_def js_set_def array_index_letters example_frames_instance_def
      left_behind_def thrown_def fresh_world_def clone_defaults_def example_defaults_def
      allCompleted_def states_incomplete_def states_success_def states_error_def Let_def
      fire_def tick_def next_idx_def frame_at_def render_def switch_state_def template_def
      ansi_def current_string_def entry_state_def entry_current_def)

text \<open>
  Where the frame count is the length of the frame sequence, not zero, an entry is
  Incomplete and the tick can render the entries, a tick of an armed timer does move
  the cursor from \<open>k\<close> to \<open>k + 1\<close> modulo that length, makes the frame at the new position
  current, and every Incomplete entry shows that one frame. And after as many ticks of
  armed timers as there are frames the cursor is back where it was, modulo the length:
  started at the first position, every Incomplete entry shows the first frame again.
\<close>

lemma frame_cursor_cycles:
  assumes "h \<in> set (timers w)" and "set hs \<subseteq> set (timers w)"
    and "length hs = length (frames (inst w))"
    and "\<not> allCompleted (inst w)" and "states_ok (inst w)" and "colors_ok chalk (inst w)"
    and "frameCount (inst w) = length (frames (inst w))" and "0 < length (frames (inst w))"
    and "idx (inst w) = Some k"
  shows
    "(\<exists>w1. fire chalk EOL h w = Returned w1
        \<and> idx (inst w1) = Some (Suc k mod length (frames (inst w)))
        \<and> currentFrame (inst w1) = Some (frames (inst w) ! (Suc k mod length (frames (inst w))))
        \<and> (\<forall>e \<in> set (spinners (inst w1)). sp_state (snd e) = states_incomplete \<longrightarrow>
              sp_current (snd e) =
                Some (colored chalk (incompleteColor (inst w))
                  (indentStr (inst w) @ frames (inst w) ! (Suc k mod length (frames (inst w)))
                     @ '' '' @ sp_text (snd e)))))
     \<and> (\<exists>wN. run chalk EOL hs w = Returned wN
        \<and> idx (inst wN) = Some (k mod length (frames (inst w)))
        \<and> (k = 0 \<longrightarrow>
              currentFrame (inst wN) = Some (frames (inst w) ! 0)
              \<and> (\<forall>e \<in> set (spinners (inst wN)). sp_state (snd e) = states_incomplete \<longrightarrow>
                    sp_current (snd e) =
                      Some (colored chalk (incompleteColor (inst w))
                        (indentStr (inst w) @ frames (inst w) ! 0 @ '' '' @ sp_text (snd e))))))"
proof -
  let ?N = "length (frames (inst w))"
  have fc: "0 < frameCount (inst w)"
    using assms(7,8) by simp
  obtain w1 where w1: "fire chalk EOL h w = Returned w1"
      "inst w1 = displayed chalk (inst w) (Suc k mod ?N)"
    using one_tick [OF assms(1,4,5,6) fc assms(9), of EOL] assms(7) by auto
  have lt: "Suc k mod ?N < ?N"
    using assms(8) by simp
  have a: "idx (inst w1) = Some (Suc k mod ?N)"
    "currentFrame (inst w1) = Some (frames (inst w) ! (Suc k mod ?N))"
    using w1(2) lt by (simp_all add: frame_at_def)
  have b: "\<forall>e \<in> set (spinners (inst w1)). sp_state (snd e) = states_incomplete \<longrightarrow>
              sp_current (snd e) =
                Some (colored chalk (incompleteColor (inst w))
                  (indentStr (inst w) @ frames (inst w) ! (Suc k mod ?N) @ '' '' @ sp_text (snd e)))"
    using displayed_incomplete [OF _ _ lt] w1(2) by auto
  have ne: "hs \<noteq> []"
    using assms(3,8) by auto
  obtain wN where wN: "run chalk EOL hs w = Returned wN"
      "inst wN = displayed chalk (inst w) ((k + length hs) mod frameCount (inst w))"
    using ticks_advance [OF ne assms(2,4,5,6) fc assms(9), of EOL] by auto
  have m: "(k + length hs) mod frameCount (inst w) = k mod ?N"
    using assms(3,7) by simp
  have c: "idx (inst wN) = Some (k mod ?N)"
    using wN(2) m by simp
  have d: "currentFrame (inst wN) = Some (frames (inst w) ! 0)" if "k = 0"
    using wN(2) m that assms(8) by (simp add: frame_at_def)
  have e: "\<forall>e \<in> set (spinners (inst wN)). sp_state (snd e) = states_incomplete \<longrightarrow>
              sp_current (snd e) =
                Some (colored chalk (incompleteColor (inst w))
                  (indentStr (inst w) @ frames (inst w) ! 0 @ '' '' @ sp_text (snd e)))" if "k = 0"
    using displayed_incomplete [OF _ _ assms(8)] wN(2) m that by auto
  show ?thesis
    using w1(1) a b wN(1) c d e by blast
qed

lemma frame_cursor_cycles_example:
  "0 \<in> set (timers example_world) \<and> set [0, 0, 0, 0] \<subseteq> set (timers example_world)
   \<and> length [0, 0, 0, 0 :: nat] = length (frames (inst example_world))
   \<and> \<not> allCompleted (inst example_world) \<and> states_ok (inst example_world)
   \<and> colors_ok ansi (inst example_world)
   \<and> frameCount (inst example_world) = length (frames (inst example_world))
   \<and> 0 < length (frames (inst example_world)) \<and> idx (inst example_world) = Some 0
   \<and> (\<exists>wN. run ansi newline [0, 0, 0, 0] example_world = Returned wN
        \<and> idx (inst wN) = Some 0 \<and> currentFrame (inst wN) = Some ''-'')"
  using frame_cursor_cycles [OF example_world_frames(1,2,3) example_world_ok(6,2,3)
      example_world_frames(4,5,6), of newline]
    example_world_frames example_world_ok(6,2,3)
  by auto

subsection \<open>C10: no spinner at all\<close>



end
